theory Spec2Isabelle
  imports Complex_Main
begin

section \<open>JavaScript values as the two sync scripts use them\<close>

text \<open>
  The booking engine exists twice in the repository: in the periodic sync script
  (the script that opens with "Booking Sync Script") and in
  \<^verbatim>\<open>.github/scripts/backfill-bookings.js\<close>. Both are embedded here, function by function.

  Text is a \<^typ>\<open>string\<close>: a list of 8-bit code units, read as the UTF-16 code units
  below 256. Texts holding a code unit of 256 or more are outside this model.
  A property that may be missing (\<^verbatim>\<open>undefined\<close>) is an \<^typ>\<open>'a option\<close>.
\<close>

text \<open>Truthiness of a string, a boolean and a number property.\<close>

definition truthyS :: "string option \<Rightarrow> bool" where
  "truthyS v = (case v of None \<Rightarrow> False | Some s \<Rightarrow> s \<noteq> [])"

definition truthyB :: "bool option \<Rightarrow> bool" where
  "truthyB v = (v = Some True)"

definition truthyN :: "rat option \<Rightarrow> bool" where
  "truthyN v = (case v of None \<Rightarrow> False | Some x \<Rightarrow> x \<noteq> 0)"

text \<open>\<^verbatim>\<open>a || b\<close> where \<open>a\<close> is a string or missing and \<open>b\<close> is a string.\<close>

definition orElse :: "string option \<Rightarrow> string \<Rightarrow> string" where
  "orElse a b = (case a of None \<Rightarrow> b | Some s \<Rightarrow> if s = [] then b else s)"

text \<open>\<^verbatim>\<open>hay.includes(needle)\<close>: the needle starts at some index of the hay.\<close>

fun str_includes :: "string \<Rightarrow> string \<Rightarrow> bool" where
  "str_includes [] needle = (needle = [])"
| "str_includes (c # cs) needle =
     (take (length needle) (c # cs) = needle \<or> str_includes cs needle)"

text \<open>
  The character classes of the regular expressions, on code units below 256:
  \<^verbatim>\<open>\s\<close> is tab, line feed, vertical tab, form feed, carriage return, space and the
  no-break space; \<^verbatim>\<open>\w\<close> is \<^verbatim>\<open>[A-Za-z0-9_]\<close>; \<^verbatim>\<open>\d\<close> is \<^verbatim>\<open>[0-9]\<close>;
  \<^verbatim>\<open>.\<close> is everything but line feed and carriage return.
\<close>

definition isSpace :: "char \<Rightarrow> bool" where
  "isSpace c = ((of_char c :: nat) \<in> {9, 10, 11, 12, 13, 32, 160})"

definition isUpper :: "char \<Rightarrow> bool" where
  "isUpper c = (65 \<le> (of_char c :: nat) \<and> (of_char c :: nat) \<le> 90)"

definition isLower :: "char \<Rightarrow> bool" where
  "isLower c = (97 \<le> (of_char c :: nat) \<and> (of_char c :: nat) \<le> 122)"

definition isDigit :: "char \<Rightarrow> bool" where
  "isDigit c = (48 \<le> (of_char c :: nat) \<and> (of_char c :: nat) \<le> 57)"

definition isWord :: "char \<Rightarrow> bool" where
  "isWord c = (isUpper c \<or> isLower c \<or> isDigit c \<or> c = CHR ''_'')"

definition isDot :: "char \<Rightarrow> bool" where
  "isDot c = ((of_char c :: nat) \<noteq> 10 \<and> (of_char c :: nat) \<noteq> 13)"

text \<open>\<^verbatim>\<open>s.split(/[,\s]+/)\<close>: cut at every maximal run of commas and white space; a run at
  the start or the end of the text leaves an empty piece there.\<close>

definition isSep :: "char \<Rightarrow> bool" where
  "isSep c = (c = CHR '','' \<or> isSpace c)"

function js_split :: "string \<Rightarrow> string list" where
  "js_split [] = [[]]"
| "js_split (c # cs) =
     (if isSep c then [] # js_split (dropWhile isSep cs)
      else (case js_split cs of [] \<Rightarrow> [[c]] | t # ts \<Rightarrow> (c # t) # ts))"
  by pat_completeness auto
termination
  by (relation "measure length") (auto simp: le_imp_less_Suc length_dropWhile_le)

text \<open>\<^verbatim>\<open>[...new Set(xs)]\<close>: the distinct elements in the order of their first occurrence.\<close>

definition uniq :: "'a list \<Rightarrow> 'a list" where
  "uniq xs = rev (remdups (rev xs))"

text \<open>\<^verbatim>\<open>xs.join(sep)\<close>.\<close>

fun js_join :: "string \<Rightarrow> string list \<Rightarrow> string" where
  "js_join sep [] = []"
| "js_join sep [x] = x"
| "js_join sep (x # y # ys) = x @ sep @ js_join sep (y # ys)"

text \<open>
  \<^verbatim>\<open>s.toUpperCase()\<close> on code units below 256: the letters a-z and the accented letters
  224-254 (without the division sign 247) move down by 32, and the sharp s (223) becomes
  \<^verbatim>\<open>SS\<close>. The micro sign (181) and y with diaeresis (255) would leave the 8-bit range and
  are kept: before and after, they are neither letters A-Z, digits, word characters nor
  white space, which is all that \<open>extractFlights\<close> looks at.
\<close>

definition upperUnit :: "char \<Rightarrow> string" where
  "upperUnit c =
     (let n = (of_char c :: nat) in
      if (97 \<le> n \<and> n \<le> 122) \<or> (224 \<le> n \<and> n \<le> 254 \<and> n \<noteq> 247) then [char_of (n - 32)]
      else if n = 223 then ''SS''
      else [c])"

definition toUpperCase :: "string \<Rightarrow> string" where
  "toUpperCase s = concat (map upperUnit s)"

text \<open>The comparison \<^verbatim>\<open><\<close> of two strings: lexicographic on the code units.\<close>

fun strLess :: "string \<Rightarrow> string \<Rightarrow> bool" where
  "strLess [] [] = False"
| "strLess [] (y # ys) = True"
| "strLess (x # xs) [] = False"
| "strLess (x # xs) (y # ys) =
     ((of_char x :: nat) < of_char y \<or> (x = y \<and> strLess xs ys))"

text \<open>\<^verbatim>\<open>String(n)\<close> for an integer and \<^verbatim>\<open>s.padStart(2, '0')\<close>.\<close>

fun showNat :: "nat \<Rightarrow> string" where
  "showNat n =
     (if n < 10 then [''0123456789'' ! n]
      else showNat (n div 10) @ [''0123456789'' ! (n mod 10)])"

definition showInt :: "int \<Rightarrow> string" where
  "showInt i = (if i < 0 then CHR ''-'' # showNat (nat (- i)) else showNat (nat i))"

definition padStart2 :: "string \<Rightarrow> string" where
  "padStart2 s = replicate (2 - length s) CHR ''0'' @ s"

section \<open>Regular expressions\<close>

text \<open>
  A backtracking matcher for the constructs the scripts' patterns use. A match state is
  the code unit before the current position (for \<^verbatim>\<open>\b\<close>), the rest of the input and the
  texts captured so far, in the order the groups close. \<open>rxm r st\<close> lists every way
  \<open>r\<close> can match at \<open>st\<close>, in the order backtracking tries them: the head is the match
  JavaScript reports.
\<close>

type_synonym mstate = "char option \<times> string \<times> string list"

datatype rx =
    Chr "char \<Rightarrow> bool"
  | Eps
  | Seq rx rx
  | Alt rx rx
  | Opt rx
  | Star rx
  | WordB
  | Grp rx

definition isWordAt :: "char option \<Rightarrow> bool" where
  "isWordAt p = (case p of None \<Rightarrow> False | Some c \<Rightarrow> isWord c)"

text \<open>Greedy \<^verbatim>\<open>r*\<close>: one more round of \<open>r\<close> first, then stop. A round that consumes
  nothing is refused, so the length of the input bounds the number of rounds.\<close>

primrec star_greedy :: "(mstate \<Rightarrow> mstate list) \<Rightarrow> nat \<Rightarrow> mstate \<Rightarrow> mstate list" where
  "star_greedy f 0 st = [st]"
| "star_greedy f (Suc n) st =
     concat (map (\<lambda>st'. if length (fst (snd st')) < length (fst (snd st))
                          then star_greedy f n st' else []) (f st)) @ [st]"

primrec rxm :: "rx \<Rightarrow> mstate \<Rightarrow> mstate list" where
  "rxm (Chr P) st =
     (case st of (p, s, g) \<Rightarrow>
        (case s of [] \<Rightarrow> [] | c # cs \<Rightarrow> if P c then [(Some c, cs, g)] else []))"
| "rxm Eps st = [st]"
| "rxm (Seq a b) st = concat (map (rxm b) (rxm a st))"
| "rxm (Alt a b) st = rxm a st @ rxm b st"
| "rxm (Opt a) st = rxm a st @ [st]"
| "rxm (Star a) st = star_greedy (rxm a) (length (fst (snd st))) st"
| "rxm WordB st =
     (case st of (p, s, g) \<Rightarrow>
        if isWordAt p \<noteq> isWordAt (case s of [] \<Rightarrow> None | c # cs \<Rightarrow> Some c)
        then [st] else [])"
| "rxm (Grp a) st =
     map (\<lambda>st'. case st' of (p', s', g') \<Rightarrow>
            (p', s', g' @ [take (length (fst (snd st)) - length s') (fst (snd st))]))
         (rxm a st)"

text \<open>The first position, from the current one on, where the pattern matches.\<close>

fun rx_search :: "rx \<Rightarrow> char option \<Rightarrow> string \<Rightarrow> mstate option" where
  "rx_search r p [] = (case rxm r (p, [], []) of [] \<Rightarrow> None | m # ms \<Rightarrow> Some m)"
| "rx_search r p (c # cs) =
     (case rxm r (p, c # cs, []) of [] \<Rightarrow> rx_search r (Some c) cs | m # ms \<Rightarrow> Some m)"

text \<open>\<^verbatim>\<open>pattern.test(text)\<close> for a pattern without the \<open>g\<close> flag.\<close>

definition rx_test :: "rx \<Rightarrow> string \<Rightarrow> bool" where
  "rx_test r s = (rx_search r None s \<noteq> None)"

text \<open>
  \<^verbatim>\<open>while ((m = pattern.exec(text)) !== null) ...\<close> for a pattern with the \<open>g\<close> flag:
  the captures of every match, each search starting where the last match ended. The
  source's loop would not end on a match that consumes nothing; the model stops
  there. The one pattern used with this loop, \<open>flightRx\<close>, consumes at least two
  letters and a digit in every match (lemma \<open>flightRx_consumes\<close>).
\<close>

function execAll :: "rx \<Rightarrow> char option \<Rightarrow> string \<Rightarrow> string list list" where
  "execAll r p s =
     (case rx_search r p s of
        None \<Rightarrow> []
      | Some m \<Rightarrow>
          if length (fst (snd m)) < length s
          then snd (snd m) # execAll r (fst m) (fst (snd m))
          else [snd (snd m)])"
  by pat_completeness auto
termination
  by (relation "measure (\<lambda>(r, p, s). length s)") auto

text \<open>Patterns are written with these helpers; under the \<open>i\<close> flag a letter of the pattern
  matches itself and its other case, and any other character of the pattern matches
  itself.\<close>

definition otherCase :: "char \<Rightarrow> char" where
  "otherCase c =
     (if isUpper c then char_of ((of_char c :: nat) + 32)
      else if isLower c then char_of ((of_char c :: nat) - 32)
      else c)"

definition ci :: "char \<Rightarrow> char \<Rightarrow> char \<Rightarrow> bool" where
  "ci c c' x = (x = c \<or> x = c')"

primrec lit :: "string \<Rightarrow> rx" where
  "lit [] = Eps"
| "lit (c # cs) = Seq (Chr (ci c (otherCase c))) (lit cs)"

fun alts :: "rx list \<Rightarrow> rx" where
  "alts [] = Chr (\<lambda>c. False)"
| "alts [r] = r"
| "alts (r # q # rs) = Alt r (alts (q # rs))"

primrec seqs :: "rx list \<Rightarrow> rx" where
  "seqs [] = Eps"
| "seqs (r # rs) = Seq r (seqs rs)"

text \<open>\<^verbatim>\<open>/\b(car\s*rental|hertz|avis|europcar|sixt|enterprise|rent.?a.?car|pick.?up.*drop.?off|vehicle\s*collect)/i\<close>\<close>

definition carRentalRx :: rx where
  "carRentalRx =
     Seq WordB (alts
       [seqs [lit ''car'', Star (Chr isSpace), lit ''rental''],
        lit ''hertz'', lit ''avis'', lit ''europcar'', lit ''sixt'', lit ''enterprise'',
        seqs [lit ''rent'', Opt (Chr isDot), lit ''a'', Opt (Chr isDot), lit ''car''],
        seqs [lit ''pick'', Opt (Chr isDot), lit ''up'', Star (Chr isDot),
              lit ''drop'', Opt (Chr isDot), lit ''off''],
        seqs [lit ''vehicle'', Star (Chr isSpace), lit ''collect'']])"

text \<open>\<^verbatim>\<open>/\b(flight|fly|depart|arrive|airport|boarding|BA\d|EK\d|LH\d|AF\d|AZ\d|FR\d|U2\d|QR\d|EY\d|SQ\d|CX\d|TK\d)/i\<close>\<close>

definition calFlightRx :: rx where
  "calFlightRx =
     Seq WordB (alts
       ([lit ''flight'', lit ''fly'', lit ''depart'', lit ''arrive'', lit ''airport'',
         lit ''boarding''] @
        map (\<lambda>carrier. Seq (lit carrier) (Chr isDigit))
          [''BA'', ''EK'', ''LH'', ''AF'', ''AZ'', ''FR'', ''U2'', ''QR'', ''EY'', ''SQ'', ''CX'',
           ''TK'']))"

text \<open>\<^verbatim>\<open>/\b(hotel|check.?in|check.?out|booking|reservation|stay|accommodation|airbnb)/i\<close>\<close>

definition calHotelRx :: rx where
  "calHotelRx =
     Seq WordB (alts
       [lit ''hotel'',
        seqs [lit ''check'', Opt (Chr isDot), lit ''in''],
        seqs [lit ''check'', Opt (Chr isDot), lit ''out''],
        lit ''booking'', lit ''reservation'', lit ''stay'', lit ''accommodation'',
        lit ''airbnb''])"

text \<open>\<^verbatim>\<open>/\b(flight|itinerary|boarding|e-?ticket|airline)/i\<close>\<close>

definition mailFlightRx :: rx where
  "mailFlightRx =
     Seq WordB (alts
       [lit ''flight'', lit ''itinerary'', lit ''boarding'',
        seqs [lit ''e'', Opt (lit ''-''), lit ''ticket''],
        lit ''airline''])"

text \<open>\<^verbatim>\<open>/\b(hotel|reservation|check.?in|booking|stay|accommodation|airbnb|nights?)/i\<close>\<close>

definition mailHotelRx :: rx where
  "mailHotelRx =
     Seq WordB (alts
       [lit ''hotel'', lit ''reservation'',
        seqs [lit ''check'', Opt (Chr isDot), lit ''in''],
        lit ''booking'', lit ''stay'', lit ''accommodation'', lit ''airbnb'',
        seqs [lit ''night'', Opt (lit ''s'')]])"

text \<open>\<^verbatim>\<open>/\b([A-Z]{2})\s*(\d{1,4})\b/g\<close>\<close>

definition flightRx :: rx where
  "flightRx =
     seqs [WordB,
           Grp (Seq (Chr isUpper) (Chr isUpper)),
           Star (Chr isSpace),
           Grp (Seq (Chr isDigit) (Opt (Seq (Chr isDigit) (Opt (Seq (Chr isDigit)
                  (Opt (Chr isDigit))))))),
           WordB]"

text \<open>\<open>extractFlights\<close>: every match contributes \<^verbatim>\<open>m[1] + m[2]\<close>.\<close>

definition extractFlights :: "string \<Rightarrow> string list" where
  "extractFlights text =
     (if text = [] then []
      else uniq (map (\<lambda>m. m ! 0 @ m ! 1) (execAll flightRx None text)))"

section \<open>Dates\<close>

text \<open>
  A \<^verbatim>\<open>Date\<close> is its time value, the milliseconds since the epoch. The local time zone
  is a fixed offset \<open>tz\<close> in milliseconds (0 on a runner that keeps UTC; daylight saving
  is not modelled), so \<^verbatim>\<open>d.setDate(d.getDate() + 1)\<close> adds 86400000 to the time value.
  \<open>civil\<close> is the proleptic Gregorian calendar that \<^verbatim>\<open>getFullYear\<close>, \<^verbatim>\<open>getMonth() + 1\<close>
  and \<^verbatim>\<open>getDate\<close> read, from the day number since the epoch.
\<close>

definition civil :: "int \<Rightarrow> int \<times> int \<times> int" where
  "civil days =
     (let z = days + 719468;
          era = z div 146097;
          doe = z - era * 146097;
          yoe = (doe - doe div 1460 + doe div 36524 - doe div 146096) div 365;
          doy = doe - (365 * yoe + yoe div 4 - yoe div 100);
          mp = (5 * doy + 2) div 153;
          d = doy - (153 * mp + 2) div 5 + 1;
          m = (if mp < 10 then mp + 3 else mp - 9);
          y = yoe + era * 400 + (if m \<le> 2 then 1 else 0)
      in (y, m, d))"

definition localDay :: "int \<Rightarrow> int \<Rightarrow> int" where
  "localDay tz t = (t + tz) div 86400000"

definition fmtDay :: "int \<Rightarrow> string" where
  "fmtDay days =
     (case civil days of (y, m, d) \<Rightarrow>
        showInt y @ ''-'' @ padStart2 (showInt m) @ ''-'' @ padStart2 (showInt d))"

definition fmtDate :: "int \<Rightarrow> int \<Rightarrow> string" where
  "fmtDate tz t = fmtDay (localDay tz t)"

function dateRange :: "int \<Rightarrow> int \<Rightarrow> int \<Rightarrow> string list" where
  "dateRange tz d e = (if d \<le> e then fmtDate tz d # dateRange tz (d + 86400000) e else [])"
  by pat_completeness auto
termination
  by (relation "measure (\<lambda>(tz, d, e). nat (e - d + 1))") auto

definition TAX_YEAR_START :: string where
  "TAX_YEAR_START = ''2025-04-06''"

section \<open>The data model\<close>

datatype bookingType = Flight | Hotel

datatype sourceKind = Calendar | Email

definition typeStr :: "bookingType \<Rightarrow> string" where
  "typeStr t = (case t of Flight \<Rightarrow> ''flight'' | Hotel \<Rightarrow> ''hotel'')"

definition sourceStr :: "sourceKind \<Rightarrow> string" where
  "sourceStr s = (case s of Calendar \<Rightarrow> ''calendar'' | Email \<Rightarrow> ''email'')"

text \<open>A booking as the two \<open>process...\<close> functions push it: every property is present.\<close>

record Booking =
  b_type :: bookingType
  b_date :: string
  b_flights :: string
  b_city :: string
  b_country :: string
  b_place :: string
  b_source :: sourceKind
  b_raw :: string

text \<open>A stored day under \<^verbatim>\<open>locations/<date>\<close>: any property may be missing.\<close>

record LocationRecord =
  place :: "string option"
  city :: "string option"
  country :: "string option"
  flights :: "string option"
  notesText :: "string option"
  lat :: "rat option"
  lon :: "rat option"
  working :: "bool option"
  autoGps :: "bool option"
  autoBooking :: "bool option"
  bookingSource :: "string option"
  countryConflict :: "string option"

text \<open>\<open>notesText\<close> is the property \<^verbatim>\<open>notes\<close> of the stored record.\<close>

text \<open>A calendar event and a mail message as the Graph API returns them.
  \<open>ev_start\<close> and \<open>ev_end\<close> are
  \<^verbatim>\<open>parseDate(event.start?.dateTime || event.start?.date)\<close> and the same for the end:
  \<open>None\<close> is \<^verbatim>\<open>null\<close>.\<close>

record event =
  ev_subject :: "string option"
  ev_bodyPreview :: "string option"
  ev_location :: "string option"
  ev_start :: "int option"
  ev_end :: "int option"

record message =
  msg_subject :: "string option"
  msg_bodyPreview :: "string option"

text \<open>
  The text extractors whose results are only copied into a booking, and the date scan of
  \<open>processEmailsFromFolder\<close>, are parameters of the model:
  \<open>extractDestination\<close> gives the city and the country of the destination airport,
  \<open>extractCity\<close> and \<open>extractHotelName\<close> give a name or nothing, and \<open>extractedDates\<close> gives
  the array the three date patterns push (\<^verbatim>\<open>new Date(m[0])\<close> of every match whose year is
  2025 to 2028, in the order pushed, before the sort). The general theorems hold for all
  of them; the evaluations at an example input fix them.
\<close>

record extractors =
  extractDestination :: "string \<Rightarrow> (string \<times> string) option"
  extractCity :: "string \<Rightarrow> string option"
  extractHotelName :: "string \<Rightarrow> string option"
  extractedDates :: "string \<Rightarrow> int list"

section \<open>processCalendar and processEmailsFromFolder\<close>

text \<open>The body of the loop over the events, in the periodic sync script.\<close>

definition calendarEvent_sync :: "int \<Rightarrow> extractors \<Rightarrow> event \<Rightarrow> Booking list" where
  "calendarEvent_sync tz xs ev =
     (let subject = orElse (ev_subject ev) [];
          body = orElse (ev_bodyPreview ev) [];
          location = orElse (ev_location ev) [];
          allText = subject @ '' '' @ body @ '' '' @ location;
          allTextUpper = toUpperCase allText
      in if rx_test carRentalRx allText then []
         else
           let isFlight = rx_test calFlightRx allText;
               isHotel = rx_test calHotelRx allText
           in if \<not> isFlight \<and> \<not> isHotel then []
              else
                (case ev_start ev of
                   None \<Rightarrow> []
                 | Some startDate \<Rightarrow>
                     (if isFlight
                      then
                        (let flights = extractFlights allTextUpper;
                             dest = extractDestination xs allTextUpper
                         in [\<lparr>b_type = Flight,
                              b_date = fmtDate tz startDate,
                              b_flights = js_join '', '' flights,
                              b_city = orElse (map_option fst dest)
                                         (orElse (extractCity xs allText) []),
                              b_country = orElse (map_option snd dest) [],
                              b_place = [],
                              b_source = Calendar,
                              b_raw = subject\<rparr>])
                      else []) @
                     (if isHotel
                      then
                        (case ev_end ev of
                           None \<Rightarrow> []
                         | Some endDate \<Rightarrow>
                             (let hotelName = orElse (extractHotelName xs allText) [];
                                  nights = dateRange tz startDate (endDate - 86400000)
                              in map (\<lambda>dateStr.
                                   \<lparr>b_type = Hotel,
                                    b_date = dateStr,
                                    b_flights = [],
                                    b_city = orElse (extractCity xs allText)
                                               (orElse (Some location) []),
                                    b_country = [],
                                    b_place = hotelName,
                                    b_source = Calendar,
                                    b_raw = subject\<rparr>) nights))
                      else [])))"

definition processCalendar_sync :: "int \<Rightarrow> extractors \<Rightarrow> event list \<Rightarrow> Booking list" where
  "processCalendar_sync tz xs events = concat (map (calendarEvent_sync tz xs) events)"

text \<open>The same loop body in the backfill script: events and nights before the start of
  the tax year are left out.\<close>

definition calendarEvent_backfill :: "int \<Rightarrow> extractors \<Rightarrow> event \<Rightarrow> Booking list" where
  "calendarEvent_backfill tz xs ev =
     (let subject = orElse (ev_subject ev) [];
          body = orElse (ev_bodyPreview ev) [];
          location = orElse (ev_location ev) [];
          allText = subject @ '' '' @ body @ '' '' @ location;
          allTextUpper = toUpperCase allText
      in if rx_test carRentalRx allText then []
         else
           let isFlight = rx_test calFlightRx allText;
               isHotel = rx_test calHotelRx allText
           in if \<not> isFlight \<and> \<not> isHotel then []
              else
                (case ev_start ev of
                   None \<Rightarrow> []
                 | Some evStart \<Rightarrow>
                     if strLess (fmtDate tz evStart) TAX_YEAR_START then []
                     else
                     (if isFlight
                      then
                        (let flights = extractFlights allTextUpper;
                             dest = extractDestination xs allTextUpper
                         in [\<lparr>b_type = Flight,
                              b_date = fmtDate tz evStart,
                              b_flights = js_join '', '' flights,
                              b_city = orElse (map_option fst dest)
                                         (orElse (extractCity xs allText) []),
                              b_country = orElse (map_option snd dest) [],
                              b_place = [],
                              b_source = Calendar,
                              b_raw = subject\<rparr>])
                      else []) @
                     (if isHotel
                      then
                        (case ev_end ev of
                           None \<Rightarrow> []
                         | Some evEnd \<Rightarrow>
                             (let hotelName = orElse (extractHotelName xs allText) [];
                                  nights = dateRange tz evStart (evEnd - 86400000);
                                  nightsInTaxYear =
                                    filter (\<lambda>d. \<not> strLess d TAX_YEAR_START) nights
                              in map (\<lambda>dateStr.
                                   \<lparr>b_type = Hotel,
                                    b_date = dateStr,
                                    b_flights = [],
                                    b_city = orElse (extractCity xs allText)
                                               (orElse (Some location) []),
                                    b_country = [],
                                    b_place = hotelName,
                                    b_source = Calendar,
                                    b_raw = subject\<rparr>) nightsInTaxYear))
                      else [])))"

definition processCalendar_backfill :: "int \<Rightarrow> extractors \<Rightarrow> event list \<Rightarrow> Booking list" where
  "processCalendar_backfill tz xs events = concat (map (calendarEvent_backfill tz xs) events)"

text \<open>The body of the loop over the messages of one folder, in the periodic sync script.
  \<open>folderType\<close> is \<^verbatim>\<open>'hotel'\<close> or \<^verbatim>\<open>'flight'\<close>; \<^verbatim>\<open>extractedDates.sort((a, b) => a - b)\<close>
  is \<^const>\<open>sort\<close>.\<close>

definition mailMessage_sync ::
  "int \<Rightarrow> extractors \<Rightarrow> bookingType \<Rightarrow> message \<Rightarrow> Booking list" where
  "mailMessage_sync tz xs folderType msg =
     (let subject = orElse (msg_subject msg) [];
          body = orElse (msg_bodyPreview msg) [];
          allText = subject @ '' '' @ body;
          allTextUpper = toUpperCase allText
      in if rx_test carRentalRx allText then []
         else
           let isFlight = (folderType = Flight \<or> rx_test mailFlightRx allText \<or>
                            length (extractFlights allTextUpper) > 0);
               isHotel = (folderType = Hotel \<or> rx_test mailHotelRx allText);
               extractedDates = sort (extractedDates xs allText)
           in
             (if isFlight \<and> length extractedDates > 0
              then
                (let flights = extractFlights allTextUpper;
                     dest = extractDestination xs allTextUpper
                 in [\<lparr>b_type = Flight,
                      b_date = fmtDate tz (extractedDates ! 0),
                      b_flights = js_join '', '' flights,
                      b_city = orElse (map_option fst dest) [],
                      b_country = orElse (map_option snd dest) [],
                      b_place = [],
                      b_source = Email,
                      b_raw = subject\<rparr>])
              else []) @
             (if isHotel \<and> length extractedDates \<ge> 2
              then
                (let hotelName = orElse (extractHotelName xs allText) [];
                     checkIn = extractedDates ! 0;
                     checkOut = extractedDates ! (length extractedDates - 1);
                     nights = dateRange tz checkIn (checkOut - 86400000)
                 in map (\<lambda>dateStr.
                      \<lparr>b_type = Hotel,
                       b_date = dateStr,
                       b_flights = [],
                       b_city = orElse (extractCity xs allText) [],
                       b_country = [],
                       b_place = hotelName,
                       b_source = Email,
                       b_raw = subject\<rparr>) nights)
              else []))"

text \<open>The same loop body in the backfill script.\<close>

definition mailMessage_backfill ::
  "int \<Rightarrow> extractors \<Rightarrow> bookingType \<Rightarrow> message \<Rightarrow> Booking list" where
  "mailMessage_backfill tz xs folderType msg =
     (let subject = orElse (msg_subject msg) [];
          body = orElse (msg_bodyPreview msg) [];
          allText = subject @ '' '' @ body;
          allTextUpper = toUpperCase allText
      in if rx_test carRentalRx allText then []
         else
           let isFlight = (folderType = Flight \<or> rx_test mailFlightRx allText \<or>
                            length (extractFlights allTextUpper) > 0);
               isHotel = (folderType = Hotel \<or> rx_test mailHotelRx allText);
               extractedDates = sort (extractedDates xs allText);
               validDates = filter (\<lambda>d. \<not> strLess (fmtDate tz d) TAX_YEAR_START) extractedDates
           in
             (if isFlight \<and> length validDates > 0
              then
                (let flights = extractFlights allTextUpper;
                     dest = extractDestination xs allTextUpper
                 in [\<lparr>b_type = Flight,
                      b_date = fmtDate tz (validDates ! 0),
                      b_flights = js_join '', '' flights,
                      b_city = orElse (map_option fst dest) [],
                      b_country = orElse (map_option snd dest) [],
                      b_place = [],
                      b_source = Email,
                      b_raw = subject\<rparr>])
              else []) @
             (if isHotel \<and> length validDates > 0
              then
                (let hotelName = orElse (extractHotelName xs allText) [];
                     checkIn = validDates ! 0;
                     checkOut = (if length validDates > 1
                                 then validDates ! (length validDates - 1)
                                 else checkIn + 86400000);
                     nights = dateRange tz checkIn (checkOut - 86400000);
                     nightsInTaxYear = filter (\<lambda>d. \<not> strLess d TAX_YEAR_START) nights
                 in map (\<lambda>dateStr.
                      \<lparr>b_type = Hotel,
                       b_date = dateStr,
                       b_flights = [],
                       b_city = orElse (extractCity xs allText) [],
                       b_country = [],
                       b_place = hotelName,
                       b_source = Email,
                       b_raw = subject\<rparr>) nightsInTaxYear)
              else []))"

section \<open>updateFirebase and mergeFlights\<close>

definition mergeFlights :: "string option \<Rightarrow> string option \<Rightarrow> string" where
  "mergeFlights existing newFlights =
     (if \<not> truthyS existing \<and> \<not> truthyS newFlights then []
      else if \<not> truthyS existing then orElse newFlights []
      else if \<not> truthyS newFlights then orElse existing []
      else js_join '', ''
             (uniq (filter (\<lambda>t. t \<noteq> [])
                (js_split (orElse existing []) @ js_split (orElse newFlights [])))))"

text \<open>The two scripts: \<open>updateFirebase\<close> of the backfill script is the one of the periodic
  sync script without the country-conflict check.\<close>

datatype script = Sync | Backfill

definition sourceInfo :: "Booking \<Rightarrow> string" where
  "sourceInfo booking = sourceStr (b_source booking) @ '': '' @ take 120 (b_raw booking)"

definition combinedSource :: "LocationRecord option \<Rightarrow> Booking \<Rightarrow> string" where
  "combinedSource current booking =
     (let existingSource = orElse (Option.bind current bookingSource) [] in
      if existingSource \<noteq> []
      then (if str_includes existingSource (sourceInfo booking) then existingSource
            else existingSource @ '' | '' @ sourceInfo booking)
      else sourceInfo booking)"

text \<open>The record written for a booking: the object literal \<^verbatim>\<open>entry\<close>, the four preserved
  properties and, in the periodic sync script, \<^verbatim>\<open>countryConflict\<close>. \<^verbatim>\<open>current?.p\<close> is
  \<open>Option.bind current p\<close>.\<close>

definition entry :: "script \<Rightarrow> LocationRecord option \<Rightarrow> Booking \<Rightarrow> LocationRecord" where
  "entry sc current booking =
     \<lparr>place = Some (orElse (Option.bind current place) (orElse (Some (b_place booking)) [])),
      city = Some (orElse (Option.bind current city) (orElse (Some (b_city booking)) [])),
      country =
        Some (orElse (Option.bind current country) (orElse (Some (b_country booking)) [])),
      flights = Some (mergeFlights (Option.bind current flights) (Some (b_flights booking))),
      notesText = Some (orElse (Option.bind current notesText) []),
      lat = (if truthyN (Option.bind current lat) then Option.bind current lat else None),
      lon = (if truthyN (Option.bind current lon) then Option.bind current lon else None),
      working =
        (if truthyB (Option.bind current working) then Option.bind current working else None),
      autoGps =
        (if truthyB (Option.bind current autoGps) then Option.bind current autoGps else None),
      autoBooking = Some True,
      bookingSource = Some (combinedSource current booking),
      countryConflict =
        (if sc = Sync \<and> truthyB (Option.bind current autoGps) \<and>
            truthyS (Option.bind current country) \<and> b_country booking \<noteq> [] \<and>
            Option.bind current country \<noteq> Some (b_country booking)
         then Some (''GPS says '' @ orElse (Option.bind current country) [] @
                    '', booking says '' @ b_country booking)
         else None)\<rparr>"

definition hasNew :: "LocationRecord option \<Rightarrow> LocationRecord \<Rightarrow> bool" where
  "hasNew current e =
     (case current of
        None \<Rightarrow> True
      | Some cur \<Rightarrow>
          (\<not> truthyS (place cur) \<and> truthyS (place e)) \<or>
          (\<not> truthyS (city cur) \<and> truthyS (city e)) \<or>
          (\<not> truthyS (flights cur) \<and> truthyS (flights e)) \<or>
          (truthyS (flights e) \<and> flights e \<noteq> flights cur) \<or>
          (\<not> truthyS (bookingSource cur) \<and> truthyS (bookingSource e)))"

text \<open>\<^verbatim>\<open>current && current.city && !current.autoGps && !current.autoBooking\<close>\<close>

definition manualEntry :: "LocationRecord option \<Rightarrow> bool" where
  "manualEntry current =
     (case current of
        None \<Rightarrow> False
      | Some cur \<Rightarrow> truthyS (city cur) \<and> \<not> truthyB (autoGps cur) \<and> \<not> truthyB (autoBooking cur))"

text \<open>The state of the loop over the bookings: the object \<^verbatim>\<open>updates\<close>, keyed by the date
  (the source's key is \<^verbatim>\<open>'locations/' + dateStr\<close>), and the three counters.\<close>

record syncState =
  updates :: "string \<rightharpoonup> LocationRecord"
  newCount :: nat
  mergedCount :: nat
  skippedCount :: nat

definition updateFirebase_step ::
  "script \<Rightarrow> (string \<rightharpoonup> LocationRecord) \<Rightarrow> syncState \<Rightarrow> Booking \<Rightarrow> syncState" where
  "updateFirebase_step sc existing st booking =
     (let dateStr = b_date booking;
          current = existing dateStr
      in if manualEntry current then st\<lparr>skippedCount := skippedCount st + 1\<rparr>
         else
           let e = entry sc current booking
           in if hasNew current e
              then (if current = None
                    then st\<lparr>updates := (updates st)(dateStr \<mapsto> e), newCount := newCount st + 1\<rparr>
                    else st\<lparr>updates := (updates st)(dateStr \<mapsto> e),
                            mergedCount := mergedCount st + 1\<rparr>)
              else st\<lparr>skippedCount := skippedCount st + 1\<rparr>)"

text \<open>\<open>existing\<close> is the snapshot of \<^verbatim>\<open>locations\<close> read once before the loop.\<close>

definition updateFirebase ::
  "script \<Rightarrow> (string \<rightharpoonup> LocationRecord) \<Rightarrow> Booking list \<Rightarrow> syncState" where
  "updateFirebase sc existing bookings =
     foldl (updateFirebase_step sc existing)
       \<lparr>updates = Map.empty, newCount = 0, mergedCount = 0, skippedCount = 0\<rparr> bookings"

text \<open>\<^verbatim>\<open>db.ref().update(updates)\<close>: every path of \<^verbatim>\<open>updates\<close> is set to its record, the
  other days stay as they are.\<close>

definition storeAfter ::
  "script \<Rightarrow> (string \<rightharpoonup> LocationRecord) \<Rightarrow> Booking list \<Rightarrow> (string \<rightharpoonup> LocationRecord)" where
  "storeAfter sc existing bookings = existing ++ updates (updateFirebase sc existing bookings)"

section \<open>The deduplication in main\<close>

definition dedupKey :: "Booking \<Rightarrow> string" where
  "dedupKey b = b_date b @ ''|'' @ typeStr (b_type b)"

text \<open>\<^verbatim>\<open>const existing = xs.find(p); if (existing) existing.flights = ...\<close>: the first
  element that satisfies \<open>p\<close> is changed where it stands.\<close>

primrec changeFirst :: "('a \<Rightarrow> bool) \<Rightarrow> ('a \<Rightarrow> 'a) \<Rightarrow> 'a list \<Rightarrow> 'a list" where
  "changeFirst p f [] = []"
| "changeFirst p f (x # xs) = (if p x then f x # xs else x # changeFirst p f xs)"

definition dedup_step :: "string list \<times> Booking list \<Rightarrow> Booking \<Rightarrow> string list \<times> Booking list" where
  "dedup_step st b =
     (case st of (seen, deduplicated) \<Rightarrow>
        let key = dedupKey b
        in if key \<notin> set seen then (seen @ [key], deduplicated @ [b])
           else if b_flights b \<noteq> []
           then (seen,
                 changeFirst (\<lambda>d. b_date d = b_date b)
                   (\<lambda>existing. existing\<lparr>b_flights :=
                      mergeFlights (Some (b_flights existing)) (Some (b_flights b))\<rparr>)
                   deduplicated)
           else (seen, deduplicated))"

text \<open>\<^verbatim>\<open>allBookings = [...calendarBookings, ...emailBookings]\<close> and the loop that builds
  \<^verbatim>\<open>deduplicated\<close>.\<close>

definition deduplicated :: "Booking list \<Rightarrow> Booking list \<Rightarrow> Booking list" where
  "deduplicated calendarBookings emailBookings =
     snd (foldl dedup_step ([], []) (calendarBookings @ emailBookings))"

section \<open>Notions the claims are stated with\<close>


text \<open>When a booking adds information to the stored record of its day, as the code
  decides it: the day has no record, or the stored place or city is empty and the
  booking has one, or the merged flights are non-empty and differ from the stored
  text, or the stored \<open>bookingSource\<close> is empty.\<close>

definition addsInformation :: "LocationRecord option \<Rightarrow> Booking \<Rightarrow> bool" where
  "addsInformation current b =
     (case current of
        None \<Rightarrow> True
      | Some cur \<Rightarrow>
          (\<not> truthyS (place cur) \<and> b_place b \<noteq> []) \<or>
          (\<not> truthyS (city cur) \<and> b_city b \<noteq> []) \<or>
          (mergeFlights (flights cur) (Some (b_flights b)) \<noteq> [] \<and>
           Some (mergeFlights (flights cur) (Some (b_flights b))) \<noteq> flights cur) \<or>
          \<not> truthyS (bookingSource cur))"


text \<open>The text of an item that the patterns are tested on: \<^verbatim>\<open>allText\<close> of the loop over
  the events and of the loop over the messages.\<close>

definition eventText :: "event \<Rightarrow> string" where
  "eventText ev =
     orElse (ev_subject ev) [] @ '' '' @ orElse (ev_bodyPreview ev) [] @ '' '' @
     orElse (ev_location ev) []"

definition messageText :: "message \<Rightarrow> string" where
  "messageText msg = orElse (msg_subject msg) [] @ '' '' @ orElse (msg_bodyPreview msg) []"

text \<open>Keeping the first booking of every pair of date and type, as the claim words the
  deduplication.\<close>

definition keepFirst :: "Booking list \<Rightarrow> Booking list" where
  "keepFirst bs =
     foldl (\<lambda>kept b. if dedupKey b \<in> set (map dedupKey kept) then kept else kept @ [b]) [] bs"

section \<open>Example inputs\<close>

text \<open>A day a person entered by hand, and one hotel night found in the calendar.\<close>

definition paris :: LocationRecord where
  "paris = \<lparr>place = None, city = Some ''Paris'', country = Some ''France'', flights = None,
     notesText = Some ''home'', lat = None, lon = None, working = None, autoGps = Some False,
     autoBooking = Some False, bookingSource = None, countryConflict = None\<rparr>"

definition romeNight :: Booking where
  "romeNight = \<lparr>b_type = Hotel, b_date = ''2025-06-01'', b_flights = [], b_city = ''Rome'',
     b_country = ''Italy'', b_place = ''Hotel X'', b_source = Calendar, b_raw = ''Hotel X Rome''\<rparr>"

text \<open>A stay already in the store, and a flight found in a mail for the same day.\<close>

definition romeStored :: LocationRecord where
  "romeStored = \<lparr>place = Some ''Hotel X'', city = Some ''Rome'', country = Some ''Italy'',
     flights = Some ''BA123'', notesText = None, lat = None, lon = None, working = None,
     autoGps = None, autoBooking = Some True,
     bookingSource = Some ''calendar: Hotel X Rome'', countryConflict = None\<rparr>"

definition milanFlight :: Booking where
  "milanFlight = \<lparr>b_type = Flight, b_date = ''2025-06-01'', b_flights = ''BA456'',
     b_city = ''Milan'', b_country = ''Italy'', b_place = [], b_source = Email,
     b_raw = ''Your flight to Milan''\<rparr>"

text \<open>A day recorded by GPS in London, and a mail that repeats a known booking.\<close>

definition gpsLondon :: LocationRecord where
  "gpsLondon = \<lparr>place = None, city = Some ''London'', country = Some ''UK'', flights = None,
     notesText = None, lat = Some (103 / 2), lon = Some (- 1 / 10), working = None,
     autoGps = Some True, autoBooking = None, bookingSource = None, countryConflict = None\<rparr>"

definition mailEcho :: Booking where
  "mailEcho = \<lparr>b_type = Hotel, b_date = ''2025-06-01'', b_flights = [], b_city = [],
     b_country = [], b_place = [], b_source = Email, b_raw = ''Booking confirmed''\<rparr>"

text \<open>Extractors that find nothing, and a calendar event and a mail about a rented car
  that also mention a flight and a hotel.\<close>

definition noExtractors :: extractors where
  "noExtractors = \<lparr>extractDestination = (\<lambda>t. None), extractCity = (\<lambda>t. None),
     extractHotelName = (\<lambda>t. None), extractedDates = (\<lambda>t. [])\<rparr>"

definition rentalEvent :: event where
  "rentalEvent = \<lparr>ev_subject = Some ''Hertz, flight BA123, hotel'',
     ev_bodyPreview = None, ev_location = None,
     ev_start = Some 1748736000000, ev_end = Some 1748995200000\<rparr>"

definition rentalMail :: message where
  "rentalMail = \<lparr>msg_subject = Some ''Avis booking'',
     msg_bodyPreview = Some ''flight BA123''\<rparr>"

text \<open>A flight found in the calendar; a date scan that finds the one date 2025-06-01
  and a hotel mail with that date; a stay from 1 June 15:00 to 4 June 11:00 and the same
  stay as an all-day event (times in UTC).\<close>

definition londonFlight :: Booking where
  "londonFlight = \<lparr>b_type = Flight, b_date = ''2025-06-01'', b_flights = ''BA123'',
     b_city = ''Rome'', b_country = ''Italy'', b_place = [], b_source = Calendar,
     b_raw = ''Flight BA123 LHR to FCO''\<rparr>"

definition oneDate :: extractors where
  "oneDate = \<lparr>extractDestination = (\<lambda>t. None), extractCity = (\<lambda>t. None),
     extractHotelName = (\<lambda>t. None), extractedDates = (\<lambda>t. [1748736000000])\<rparr>"

definition singleDateMail :: message where
  "singleDateMail = \<lparr>msg_subject = Some ''Hotel Roma 2025-06-01'',
     msg_bodyPreview = None\<rparr>"

definition timedStay :: event where
  "timedStay = \<lparr>ev_subject = Some ''Hotel Roma'', ev_bodyPreview = None,
     ev_location = Some ''Rome'', ev_start = Some 1748790000000, ev_end = Some 1749034800000\<rparr>"

definition allDayStay :: event where
  "allDayStay = \<lparr>ev_subject = Some ''Hotel Roma'', ev_bodyPreview = None,
     ev_location = Some ''Rome'', ev_start = Some 1748736000000, ev_end = Some 1748995200000\<rparr>"

section \<open>The manual lock\<close>

lemma step_updates_manual:
  "manualEntry (existing d) \<Longrightarrow> updates (updateFirebase_step sc existing st b) d = updates st d"
  by (cases "b_date b = d") (auto simp: updateFirebase_step_def Let_def)

lemma foldl_updates_manual:
  "manualEntry (existing d) \<Longrightarrow>
   updates (foldl (updateFirebase_step sc existing) st bs) d = updates st d"
  by (induction bs arbitrary: st) (simp_all add: step_updates_manual)

text \<open>
  Claim C1. A day whose stored record has a non-empty city while \<open>autoGps\<close> and
  \<open>autoBooking\<close> are both false or missing is never written by \<open>updateFirebase\<close>, in
  either script and for every list of bookings: \<open>updates\<close> has no entry for the day and
  the store holds the same record afterwards.
\<close>

theorem manual_record_untouched:
  assumes "existing d = Some r" and "truthyS (city r)"
    and "\<not> truthyB (autoGps r)" and "\<not> truthyB (autoBooking r)"
  shows "updates (updateFirebase sc existing bookings) d = None \<and>
         storeAfter sc existing bookings d = Some r"
proof -
  have m: "manualEntry (existing d)"
    using assms by (simp add: manualEntry_def)
  have u: "updates (updateFirebase sc existing bookings) d = None"
    unfolding updateFirebase_def using m by (simp add: foldl_updates_manual)
  show ?thesis
    using u assms(1) by (simp add: storeAfter_def map_add_def)
qed

theorem manual_record_untouched_witness:
  "updates (updateFirebase Sync [''2025-06-01'' \<mapsto> paris] [romeNight]) ''2025-06-01'' = None \<and>
   storeAfter Sync [''2025-06-01'' \<mapsto> paris] [romeNight] ''2025-06-01'' = Some paris"
  using manual_record_untouched
    [of "[''2025-06-01'' \<mapsto> paris]" "''2025-06-01''" paris Sync "[romeNight]"]
  by (simp add: paris_def truthyS_def truthyB_def)

section \<open>Merging only adds\<close>

lemma str_includes_Nil [simp]: "str_includes h []"
  by (cases h) simp_all

lemma str_includes_self [simp]: "str_includes x x"
  by (cases x) simp_all




lemma js_split_not_Nil [simp]: "js_split s \<noteq> []"
  by (induction s rule: js_split.induct) (auto split: list.splits)





lemma isSep_comma [simp]: "isSep CHR '',''"
  by (simp add: isSep_def)

lemma isSep_space [simp]: "isSep CHR '' ''"
  by (simp add: isSep_def isSpace_def)


lemma set_uniq [simp]: "set (uniq xs) = set xs"
  by (simp add: uniq_def)

















text \<open>The properties outside the list of claim C2 are written anew: a stored
  \<open>countryConflict\<close> is not carried over by a booking without a country, and a
  latitude of 0 is dropped.\<close>

lemma conflict_not_carried_over:
  "b_country b = [] \<Longrightarrow> countryConflict (entry sc (Some r) b) = None"
  by (simp add: entry_def)

lemma zero_latitude_dropped:
  "lat r = Some 0 \<Longrightarrow> lat (entry sc (Some r) b) = None"
  by (simp add: entry_def truthyN_def)

section \<open>Country conflict\<close>

lemma sync_country_conflict:
  assumes "truthyB (autoGps cur)" and "country cur = Some c" and "c \<noteq> []"
    and "b_country b \<noteq> []" and "c \<noteq> b_country b"
  shows "countryConflict (entry Sync (Some cur) b) =
           Some (''GPS says '' @ c @ '', booking says '' @ b_country b) \<and>
         country (entry Sync (Some cur) b) = Some c"
  using assms by (simp add: entry_def truthyS_def orElse_def)

text \<open>
  Claim C6. In the periodic sync script a merge into a GPS record whose country differs
  from the booking's sets \<open>countryConflict\<close> and keeps the stored country (lemma
  \<open>sync_country_conflict\<close>). The backfill script has no such check: for a day recorded by
  GPS in the UK and a flight booking to Italy, the record it writes keeps the country UK
  and has no \<open>countryConflict\<close>, where the periodic sync script writes
  "GPS says UK, booking says Italy".
\<close>

theorem backfill_no_country_conflict:
  "map_option countryConflict
     (updates (updateFirebase Backfill [''2025-06-01'' \<mapsto> gpsLondon] [milanFlight])
        ''2025-06-01'') = Some None \<and>
   map_option countryConflict
     (updates (updateFirebase Sync [''2025-06-01'' \<mapsto> gpsLondon] [milanFlight])
        ''2025-06-01'') = Some (Some ''GPS says UK, booking says Italy'') \<and>
   map_option country
     (updates (updateFirebase Backfill [''2025-06-01'' \<mapsto> gpsLondon] [milanFlight])
        ''2025-06-01'') = Some (Some ''UK'')"
  by (simp add: updateFirebase_def updateFirebase_step_def Let_def manualEntry_def hasNew_def
      entry_def gpsLondon_def milanFlight_def truthyS_def truthyB_def truthyN_def orElse_def
      mergeFlights_def)

section \<open>When an update is emitted\<close>

lemma sourceInfo_not_Nil [simp]: "sourceInfo b \<noteq> []"
  by (simp add: sourceInfo_def sourceStr_def split: sourceKind.splits)

lemma combinedSource_not_Nil [simp]: "combinedSource current b \<noteq> []"
  by (simp add: combinedSource_def Let_def)

lemma hasNew_addsInformation:
  "hasNew current (entry sc current b) = addsInformation current b"
proof (cases current)
  case None
  then show ?thesis by (simp add: hasNew_def addsInformation_def)
next
  case (Some cur)
  have p: "(\<not> truthyS (place cur) \<and> truthyS (place (entry sc (Some cur) b))) =
           (\<not> truthyS (place cur) \<and> b_place b \<noteq> [])"
    by (auto simp: entry_def truthyS_def orElse_def split: option.splits)
  have c: "(\<not> truthyS (city cur) \<and> truthyS (city (entry sc (Some cur) b))) =
           (\<not> truthyS (city cur) \<and> b_city b \<noteq> [])"
    by (auto simp: entry_def truthyS_def orElse_def split: option.splits)
  have s: "(\<not> truthyS (bookingSource cur) \<and> truthyS (bookingSource (entry sc (Some cur) b))) =
           (\<not> truthyS (bookingSource cur))"
    by (simp add: entry_def truthyS_def)
  have f: "flights (entry sc (Some cur) b) = Some (mergeFlights (flights cur) (Some (b_flights b)))"
    by (simp add: entry_def)
  have f3: "\<not> truthyS (flights cur) \<and> truthyS (Some (mergeFlights (flights cur) (Some (b_flights b))))
        \<Longrightarrow> Some (mergeFlights (flights cur) (Some (b_flights b))) \<noteq> flights cur"
    by (auto simp: truthyS_def split: option.splits)
  show ?thesis
    unfolding Some hasNew_def addsInformation_def option.case p c s f
    using f3 by (auto simp: truthyS_def)
qed

text \<open>
  Claim C7, as amended. For a day that is not locked, one pass of the loop of
  \<open>updateFirebase\<close> writes the merged record exactly when the booking adds information in
  the sense of \<open>addsInformation\<close>; otherwise it writes nothing and counts the booking as
  skipped. A \<open>bookingSource\<close> that only grows by a further line is not among the
  conditions.
\<close>

theorem update_emitted_iff:
  assumes "\<not> manualEntry (existing (b_date b))"
  shows "(addsInformation (existing (b_date b)) b \<longrightarrow>
            updates (updateFirebase_step sc existing st b) =
              (updates st)(b_date b \<mapsto> entry sc (existing (b_date b)) b) \<and>
            skippedCount (updateFirebase_step sc existing st b) = skippedCount st) \<and>
         (\<not> addsInformation (existing (b_date b)) b \<longrightarrow>
            updates (updateFirebase_step sc existing st b) = updates st \<and>
            skippedCount (updateFirebase_step sc existing st b) = skippedCount st + 1)"
  using assms
  by (simp add: updateFirebase_step_def Let_def hasNew_addsInformation)

theorem update_emitted_iff_witness:
  "updates (updateFirebase_step Sync [''2025-06-01'' \<mapsto> romeStored]
      \<lparr>updates = Map.empty, newCount = 0, mergedCount = 0, skippedCount = 0\<rparr> mailEcho) = Map.empty \<and>
   skippedCount (updateFirebase_step Sync [''2025-06-01'' \<mapsto> romeStored]
      \<lparr>updates = Map.empty, newCount = 0, mergedCount = 0, skippedCount = 0\<rparr> mailEcho) = 1 \<and>
   updates (updateFirebase_step Sync [''2025-06-01'' \<mapsto> romeStored]
      \<lparr>updates = Map.empty, newCount = 0, mergedCount = 0, skippedCount = 0\<rparr> milanFlight) =
     [''2025-06-01'' \<mapsto> entry Sync (Some romeStored) milanFlight]"
proof -
  have m: "\<not> manualEntry ([''2025-06-01'' \<mapsto> romeStored] (b_date mailEcho))"
    "\<not> manualEntry ([''2025-06-01'' \<mapsto> romeStored] (b_date milanFlight))"
    by (simp_all add: manualEntry_def mailEcho_def milanFlight_def romeStored_def truthyB_def)
  have a: "\<not> addsInformation ([''2025-06-01'' \<mapsto> romeStored] (b_date mailEcho)) mailEcho"
    by (simp add: addsInformation_def mailEcho_def romeStored_def truthyS_def mergeFlights_def
        orElse_def)
  have b: "addsInformation ([''2025-06-01'' \<mapsto> romeStored] (b_date milanFlight)) milanFlight"
    by (simp add: addsInformation_def milanFlight_def romeStored_def truthyS_def mergeFlights_def
        orElse_def uniq_def isSep_def isSpace_def)
  show ?thesis
    using update_emitted_iff [where existing = "[''2025-06-01'' \<mapsto> romeStored]"
        and b = mailEcho and sc = Sync
        and st = "\<lparr>updates = Map.empty, newCount = 0, mergedCount = 0, skippedCount = 0\<rparr>"]
      update_emitted_iff [where existing = "[''2025-06-01'' \<mapsto> romeStored]"
        and b = milanFlight and sc = Sync
        and st = "\<lparr>updates = Map.empty, newCount = 0, mergedCount = 0, skippedCount = 0\<rparr>"]
      m a b
    by (simp add: mailEcho_def milanFlight_def)
qed

text \<open>
  Claim C7 as stated fails: for a stored stay with a \<open>bookingSource\<close> and a mail that
  brings nothing but a new audit line, the merged \<open>bookingSource\<close> differs from the
  stored one, yet no update is emitted and the booking is counted as skipped.
\<close>

theorem changed_source_not_emitted:
  "bookingSource romeStored = Some ''calendar: Hotel X Rome'' \<and>
   bookingSource (entry Sync (Some romeStored) mailEcho) =
     Some ''calendar: Hotel X Rome | email: Booking confirmed'' \<and>
   updates (updateFirebase Sync [''2025-06-01'' \<mapsto> romeStored] [mailEcho]) ''2025-06-01'' = None \<and>
   skippedCount (updateFirebase Sync [''2025-06-01'' \<mapsto> romeStored] [mailEcho]) = 1"
  by (simp add: updateFirebase_def updateFirebase_step_def Let_def manualEntry_def hasNew_def
      entry_def romeStored_def mailEcho_def truthyS_def truthyB_def truthyN_def orElse_def
      mergeFlights_def combinedSource_def sourceInfo_def sourceStr_def)

section \<open>The audit trail\<close>















section \<open>Car rentals\<close>

text \<open>
  Claim C8. An item whose text matches the car-rental pattern produces no booking, in
  the calendar loop and in the mail loop of both scripts, whatever the other patterns,
  the folder and the extractors say: the test comes first and leaves the loop body.
\<close>

theorem car_rental_excluded:
  "(rx_test carRentalRx (eventText ev) \<longrightarrow>
      calendarEvent_sync tz xs ev = [] \<and> calendarEvent_backfill tz xs ev = []) \<and>
   (rx_test carRentalRx (messageText msg) \<longrightarrow>
      mailMessage_sync tz xs folderType msg = [] \<and>
      mailMessage_backfill tz xs folderType msg = [])"
  by (simp add: eventText_def messageText_def calendarEvent_sync_def calendarEvent_backfill_def
      mailMessage_sync_def mailMessage_backfill_def Let_def)

lemma rentalEvent_signals:
  "rx_test carRentalRx (eventText rentalEvent) \<and>
   rx_test calFlightRx (eventText rentalEvent) \<and>
   rx_test calHotelRx (eventText rentalEvent)"
  by code_simp

lemma rentalMail_signals:
  "rx_test carRentalRx (messageText rentalMail) \<and>
   rx_test mailFlightRx (messageText rentalMail) \<and>
   rx_test mailHotelRx (messageText rentalMail)"
  by code_simp

theorem car_rental_excluded_witness:
  "rx_test calFlightRx (eventText rentalEvent) \<and>
   rx_test calHotelRx (eventText rentalEvent) \<and>
   calendarEvent_sync 0 noExtractors rentalEvent = [] \<and>
   calendarEvent_backfill 0 noExtractors rentalEvent = [] \<and>
   rx_test mailFlightRx (messageText rentalMail) \<and>
   rx_test mailHotelRx (messageText rentalMail) \<and>
   mailMessage_sync 0 noExtractors Hotel rentalMail = [] \<and>
   mailMessage_backfill 0 noExtractors Hotel rentalMail = []"
  using car_rental_excluded [of rentalEvent 0 noExtractors rentalMail Hotel]
    rentalEvent_signals rentalMail_signals
  by simp

section \<open>Flight numbers\<close>


text \<open>The callers pass the text in upper case. There the pattern, which allows white
  space between the two letters and the digits, also matches "ON 12".\<close>

lemma extractFlights_example_upper:
  "toUpperCase ''Flight BA123 LHR to MXP on 12 June 2025'' =
     ''FLIGHT BA123 LHR TO MXP ON 12 JUNE 2025'' \<and>
   extractFlights (toUpperCase ''Flight BA123 LHR to MXP on 12 June 2025'') =
     [''BA123'', ''ON12'']"
  by code_simp

text \<open>Every match of \<open>flightRx\<close> consumes input, so the loop of \<open>execAll\<close> never
  takes its last branch for it.\<close>

lemma star_greedy_le:
  assumes f: "\<And>a b. b \<in> set (f a) \<Longrightarrow> length (fst (snd b)) \<le> length (fst (snd a))"
  shows "st' \<in> set (star_greedy f n st) \<Longrightarrow> length (fst (snd st')) \<le> length (fst (snd st))"
proof (induction n arbitrary: st)
  case 0
  then show ?case by simp
next
  case (Suc n)
  from Suc.prems consider "st' = st"
    | m where "m \<in> set (f st)" "length (fst (snd m)) < length (fst (snd st))"
        "st' \<in> set (star_greedy f n m)"
    by (auto split: if_splits)
  then show ?case
  proof cases
    case 1
    then show ?thesis by simp
  next
    case 2
    from Suc.IH [OF 2(3)] 2(2) show ?thesis by simp
  qed
qed

lemma rxm_Seq_elim:
  "st' \<in> set (rxm (Seq a b) st) \<Longrightarrow> \<exists>m. m \<in> set (rxm a st) \<and> st' \<in> set (rxm b m)"
  by auto

lemma rxm_WordB_same: "m \<in> set (rxm WordB st) \<Longrightarrow> m = st"
  by (cases st) (auto split: if_splits)

lemma rxm_Chr_less:
  "m \<in> set (rxm (Chr P) st) \<Longrightarrow> length (fst (snd m)) < length (fst (snd st))"
  by (cases st) (auto split: list.splits if_splits)

lemma rxm_Grp_rest:
  "m \<in> set (rxm (Grp a) st) \<Longrightarrow> \<exists>m'. m' \<in> set (rxm a st) \<and> fst (snd m) = fst (snd m')"
proof -
  assume "m \<in> set (rxm (Grp a) st)"
  then obtain m' where m': "m' \<in> set (rxm a st)"
    "m = (case m' of (p', s', g') \<Rightarrow>
            (p', s', g' @ [take (length (fst (snd st)) - length s') (fst (snd st))]))"
    by auto
  from m'(2) have "fst (snd m) = fst (snd m')" by (cases m') auto
  with m'(1) show ?thesis by blast
qed

lemma rxm_le:
  "st' \<in> set (rxm r st) \<Longrightarrow> length (fst (snd st')) \<le> length (fst (snd st))"
proof (induction r arbitrary: st st')
  case (Chr P)
  from rxm_Chr_less [OF Chr.prems] show ?case by simp
next
  case Eps
  then show ?case by simp
next
  case (Seq a b)
  from rxm_Seq_elim [OF Seq.prems]
  obtain m where m: "m \<in> set (rxm a st)" "st' \<in> set (rxm b m)" by blast
  from Seq.IH(1) [OF m(1)] Seq.IH(2) [OF m(2)] show ?case by simp
next
  case (Alt a b)
  from Alt.prems have "st' \<in> set (rxm a st) \<or> st' \<in> set (rxm b st)" by simp
  then show ?case
  proof
    assume "st' \<in> set (rxm a st)"
    from Alt.IH(1) [OF this] show ?thesis .
  next
    assume "st' \<in> set (rxm b st)"
    from Alt.IH(2) [OF this] show ?thesis .
  qed
next
  case (Opt a)
  from Opt.prems have "st' \<in> set (rxm a st) \<or> st' = st" by (simp add: disj_commute)
  then show ?case
  proof
    assume "st' \<in> set (rxm a st)"
    from Opt.IH [OF this] show ?thesis .
  next
    assume "st' = st"
    then show ?thesis by simp
  qed
next
  case (Star a)
  from Star.prems have "st' \<in> set (star_greedy (rxm a) (length (fst (snd st))) st)" by simp
  from star_greedy_le [of "rxm a", OF Star.IH this] show ?case .
next
  case WordB
  from rxm_WordB_same [OF WordB.prems] show ?case by simp
next
  case (Grp a)
  from rxm_Grp_rest [OF Grp.prems]
  obtain m where m: "m \<in> set (rxm a st)" "fst (snd st') = fst (snd m)" by blast
  from Grp.IH [OF m(1)] m(2) show ?case by simp
qed

lemma rxm_flightRx_less:
  assumes "st' \<in> set (rxm flightRx st)"
  shows "length (fst (snd st')) < length (fst (snd st))"
proof -
  define R where "R = seqs [Star (Chr isSpace),
           Grp (Seq (Chr isDigit) (Opt (Seq (Chr isDigit) (Opt (Seq (Chr isDigit)
                  (Opt (Chr isDigit))))))), WordB]"
  have f: "flightRx = Seq WordB (Seq (Grp (Seq (Chr isUpper) (Chr isUpper))) R)"
    by (simp add: flightRx_def R_def)
  from assms obtain m where m: "m \<in> set (rxm WordB st)"
    "st' \<in> set (rxm (Seq (Grp (Seq (Chr isUpper) (Chr isUpper))) R) m)"
    unfolding f using rxm_Seq_elim by blast
  from rxm_WordB_same [OF m(1)] have ms: "m = st" .
  from rxm_Seq_elim [OF m(2)] ms
  obtain g where g: "g \<in> set (rxm (Grp (Seq (Chr isUpper) (Chr isUpper))) st)"
    "st' \<in> set (rxm R g)" by blast
  from rxm_Grp_rest [OF g(1)]
  obtain u where u: "u \<in> set (rxm (Seq (Chr isUpper) (Chr isUpper)) st)"
    "fst (snd g) = fst (snd u)" by blast
  from rxm_Seq_elim [OF u(1)]
  obtain v where v: "v \<in> set (rxm (Chr isUpper) st)" "u \<in> set (rxm (Chr isUpper) v)" by blast
  from rxm_Chr_less [OF v(1)] rxm_Chr_less [OF v(2)] u(2)
  have "length (fst (snd g)) < length (fst (snd st))" by simp
  moreover from rxm_le [OF g(2)] have "length (fst (snd st')) \<le> length (fst (snd g))" .
  ultimately show ?thesis by simp
qed

lemma rx_search_flightRx_less:
  "rx_search flightRx p s = Some m \<Longrightarrow> length (fst (snd m)) < length s"
proof (induction s arbitrary: p)
  case Nil
  then have "m \<in> set (rxm flightRx (p, [], []))" by (auto split: list.splits)
  from rxm_flightRx_less [OF this] show ?case by simp
next
  case (Cons c cs)
  show ?case
  proof (cases "rxm flightRx (p, c # cs, [])")
    case Nil
    with Cons.prems have "rx_search flightRx (Some c) cs = Some m" by simp
    from Cons.IH [OF this] show ?thesis by simp
  next
    case (Cons x xs)
    with Cons.prems have "m \<in> set (rxm flightRx (p, c # cs, []))" by simp
    from rxm_flightRx_less [OF this] show ?thesis by simp
  qed
qed

lemma flightRx_consumes:
  "execAll flightRx p s =
     (case rx_search flightRx p s of
        None \<Rightarrow> []
      | Some m \<Rightarrow> snd (snd m) # execAll flightRx (fst m) (fst (snd m)))"
  by (subst execAll.simps) (auto split: option.splits dest: rx_search_flightRx_less)

section \<open>Deduplication\<close>

text \<open>
  Claim C5. The deduplication keeps the first booking of every pair of date and type
  (lemma \<open>dedup_keeps_first\<close>, below), but a later booking's flights are merged into the
  first kept booking of the same date, whatever its type: with a hotel night and a
  flight of one day from the calendar and a second flight of that day from a mail, the
  mail's flight number lands in the hotel night, not in the kept flight. Only when the
  kept booking of the pair is also the first of its date does the merge reach it.
\<close>

theorem dedup_merges_into_other_type:
  "deduplicated [romeNight, londonFlight] [milanFlight] =
     [romeNight\<lparr>b_flights := ''BA456''\<rparr>, londonFlight] \<and>
   deduplicated [londonFlight, romeNight] [milanFlight] =
     [londonFlight\<lparr>b_flights := ''BA123, BA456''\<rparr>, romeNight]"
  by code_simp

lemma dedupKey_eq_iff:
  "dedupKey a = dedupKey b \<longleftrightarrow> b_date a = b_date b \<and> b_type a = b_type b"
proof -
  have "rev (dedupKey a) = rev (dedupKey b) \<longleftrightarrow> b_date a = b_date b \<and> b_type a = b_type b"
    by (cases "b_type a"; cases "b_type b") (auto simp: dedupKey_def typeStr_def)
  then show ?thesis by simp
qed

lemma dedupKey_flights [simp]: "dedupKey (b\<lparr>b_flights := f\<rparr>) = dedupKey b"
  by (simp add: dedupKey_def)

lemma map_changeFirst_flights:
  "map (\<lambda>b. b\<lparr>b_flights := []\<rparr>) (changeFirst p (\<lambda>x. x\<lparr>b_flights := g x\<rparr>) xs) =
   map (\<lambda>b. b\<lparr>b_flights := []\<rparr>) xs"
  by (induction xs) simp_all

lemma map_changeFirst_key:
  "map dedupKey (changeFirst p (\<lambda>x. x\<lparr>b_flights := g x\<rparr>) xs) = map dedupKey xs"
  by (induction xs) simp_all

lemma dedup_foldl_keeps_first:
  assumes "seen = map dedupKey ded"
    and "map (\<lambda>b. b\<lparr>b_flights := []\<rparr>) ded = map (\<lambda>b. b\<lparr>b_flights := []\<rparr>) kept"
  shows "map (\<lambda>b. b\<lparr>b_flights := []\<rparr>) (snd (foldl dedup_step (seen, ded) bs)) =
         map (\<lambda>b. b\<lparr>b_flights := []\<rparr>)
           (foldl (\<lambda>kept b. if dedupKey b \<in> set (map dedupKey kept) then kept else kept @ [b])
              kept bs)"
  using assms
proof (induction bs arbitrary: seen ded kept)
  case Nil
  then show ?case by simp
next
  case (Cons b bs)
  have k: "map dedupKey ded = map dedupKey kept"
  proof -
    have "map dedupKey ded = map (\<lambda>b. dedupKey (b\<lparr>b_flights := []\<rparr>)) ded" by simp
    also have "\<dots> = map dedupKey (map (\<lambda>b. b\<lparr>b_flights := []\<rparr>) ded)" by (simp add: comp_def)
    also have "\<dots> = map dedupKey (map (\<lambda>b. b\<lparr>b_flights := []\<rparr>) kept)"
      using Cons.prems(2) by simp
    also have "\<dots> = map dedupKey kept" by (simp add: comp_def)
    finally show ?thesis .
  qed
  show ?case
  proof (cases "dedupKey b \<in> set seen")
    case False
    then have s: "dedup_step (seen, ded) b = (seen @ [dedupKey b], ded @ [b])"
      by (simp add: dedup_step_def Let_def)
    have n: "dedupKey b \<notin> set (map dedupKey kept)" using False Cons.prems(1) k by simp
    have ih: "map (\<lambda>b. b\<lparr>b_flights := []\<rparr>)
               (snd (foldl dedup_step (seen @ [dedupKey b], ded @ [b]) bs)) =
             map (\<lambda>b. b\<lparr>b_flights := []\<rparr>)
               (foldl (\<lambda>kept b. if dedupKey b \<in> set (map dedupKey kept) then kept
                                  else kept @ [b]) (kept @ [b]) bs)"
      using Cons.prems by (intro Cons.IH) simp_all
    show ?thesis
      unfolding foldl_Cons s using n ih by simp
  next
    case True
    define ded' where "ded' = (if b_flights b \<noteq> [] then
        changeFirst (\<lambda>d. b_date d = b_date b)
          (\<lambda>existing. existing\<lparr>b_flights :=
             mergeFlights (Some (b_flights existing)) (Some (b_flights b))\<rparr>) ded else ded)"
    have s: "dedup_step (seen, ded) b = (seen, ded')"
      using True by (simp add: dedup_step_def Let_def ded'_def)
    have a: "map dedupKey ded' = map dedupKey ded"
      by (simp add: ded'_def map_changeFirst_key)
    have e: "map (\<lambda>b. b\<lparr>b_flights := []\<rparr>) ded' = map (\<lambda>b. b\<lparr>b_flights := []\<rparr>) ded"
      by (simp add: ded'_def map_changeFirst_flights)
    have n: "dedupKey b \<in> set (map dedupKey kept)" using True Cons.prems(1) k by simp
    have ih: "map (\<lambda>b. b\<lparr>b_flights := []\<rparr>) (snd (foldl dedup_step (seen, ded') bs)) =
             map (\<lambda>b. b\<lparr>b_flights := []\<rparr>)
               (foldl (\<lambda>kept b. if dedupKey b \<in> set (map dedupKey kept) then kept
                                  else kept @ [b]) kept bs)"
      using Cons.prems a e by (intro Cons.IH) simp_all
    show ?thesis
      unfolding foldl_Cons s using n ih by simp
  qed
qed

lemma dedup_keeps_first:
  "map (\<lambda>b. b\<lparr>b_flights := []\<rparr>) (deduplicated calendarBookings emailBookings) =
   map (\<lambda>b. b\<lparr>b_flights := []\<rparr>) (keepFirst (calendarBookings @ emailBookings))"
  unfolding deduplicated_def keepFirst_def
  by (rule dedup_foldl_keeps_first) simp_all

section \<open>Evaluations shared by the examples\<close>

text \<open>The days 1 to 4 June 2025, the time values of the examples on a runner in UTC, and
  what the patterns find in the texts of the examples.\<close>

lemma fmtDay_examples:
  "fmtDay 20240 = ''2025-06-01''" "fmtDay 20241 = ''2025-06-02''"
  "fmtDay 20242 = ''2025-06-03''" "fmtDay 20243 = ''2025-06-04''"
  by code_simp+

lemma fmtDate_examples:
  "fmtDate 0 1748736000000 = ''2025-06-01''" "fmtDate 0 1748790000000 = ''2025-06-01''"
  "fmtDate 0 1748822400000 = ''2025-06-02''" "fmtDate 0 1748876400000 = ''2025-06-02''"
  "fmtDate 0 1748908800000 = ''2025-06-03''"
  "fmtDate 0 1748995200000 = ''2025-06-04''" "fmtDate 0 1749034800000 = ''2025-06-04''"
  by (simp_all add: fmtDate_def localDay_def fmtDay_examples)

lemma strLess_examples:
  "\<not> strLess ''2025-06-01'' TAX_YEAR_START" "\<not> strLess ''2025-06-02'' TAX_YEAR_START"
  "\<not> strLess ''2025-06-03'' TAX_YEAR_START"
  by (simp_all add: TAX_YEAR_START_def)

lemma nights_timed:
  "dateRange 0 1748790000000 1748948400000 = [''2025-06-01'', ''2025-06-02'']"
  by (simp add: fmtDate_examples)

lemma nights_all_day:
  "dateRange 0 1748736000000 1748908800000 = [''2025-06-01'', ''2025-06-02'', ''2025-06-03'']"
  by (simp add: fmtDate_examples)

lemma nights_single:
  "dateRange 0 1748736000000 1748736000000 = [''2025-06-01'']"
  by (simp add: fmtDate_examples)

lemma stay_signals:
  "\<not> rx_test carRentalRx ''Hotel Roma  Rome''"
  "\<not> rx_test calFlightRx ''Hotel Roma  Rome''"
  "rx_test calHotelRx ''Hotel Roma  Rome''"
  by code_simp+

lemma mail_signals:
  "\<not> rx_test carRentalRx ''Hotel Roma 2025-06-01 ''"
  "\<not> rx_test mailFlightRx ''Hotel Roma 2025-06-01 ''"
  "extractFlights (toUpperCase ''Hotel Roma 2025-06-01 '') = []"
  by code_simp+

section \<open>A mail with one date\<close>

text \<open>
  Claim C4. For a mail in the hotel folder from which one date is extracted, the
  backfill script assumes one night and produces one hotel booking for the check-in day;
  the periodic sync script asks for two dates and produces nothing.
\<close>

theorem single_date_mail_sync_no_hotel:
  "sort (extractedDates oneDate (messageText singleDateMail)) = [1748736000000] \<and>
   fmtDate 0 1748736000000 = ''2025-06-01'' \<and>
   mailMessage_sync 0 oneDate Hotel singleDateMail = [] \<and>
   map (\<lambda>b. (b_type b, b_date b)) (mailMessage_backfill 0 oneDate Hotel singleDateMail) =
     [(Hotel, ''2025-06-01'')]"
  by (simp add: mailMessage_sync_def mailMessage_backfill_def Let_def singleDateMail_def
      oneDate_def messageText_def orElse_def mail_signals nights_single fmtDate_examples
      strLess_examples del: dateRange.simps)

text \<open>In general: the periodic sync script never produces a hotel booking from one date,
  the backfill script produces exactly the night of that date.\<close>

lemma sync_single_date_no_hotel:
  "length (extractedDates xs (messageText msg)) = 1 \<Longrightarrow>
   filter (\<lambda>b. b_type b = Hotel) (mailMessage_sync tz xs folderType msg) = []"
  by (simp add: mailMessage_sync_def Let_def messageText_def)

lemma dateRange_one: "dateRange tz d d = [fmtDate tz d]"
  by (subst dateRange.simps) (simp add: dateRange.simps [of tz "d + 86400000" d])

lemma backfill_single_date_one_night:
  assumes "\<not> rx_test carRentalRx (messageText msg)"
    and "folderType = Hotel \<or> rx_test mailHotelRx (messageText msg)"
    and "filter (\<lambda>d. \<not> strLess (fmtDate tz d) TAX_YEAR_START)
           (sort (extractedDates xs (messageText msg))) = [checkIn]"
  shows "map b_date (filter (\<lambda>b. b_type b = Hotel) (mailMessage_backfill tz xs folderType msg)) =
           [fmtDate tz checkIn]"
proof -
  have "checkIn \<in> set (filter (\<lambda>d. \<not> strLess (fmtDate tz d) TAX_YEAR_START)
           (sort (extractedDates xs (messageText msg))))"
    using assms(3) by simp
  then have ok: "\<not> strLess (fmtDate tz checkIn) TAX_YEAR_START" by simp
  show ?thesis
    using assms ok
    by (simp add: mailMessage_backfill_def Let_def messageText_def dateRange_one
        del: dateRange.simps)
qed

section \<open>The nights of a stay\<close>

text \<open>
  Claim C3. For a stay entered with times, check-in 1 June 2025 15:00 and check-out
  4 June 2025 11:00, both scripts produce the nights of 1 and 2 June only: the night of
  3 June is missing, because the loop of \<open>dateRange\<close> compares time values and the
  check-out is earlier in the day than the check-in. For the same stay as an all-day
  event the three nights of the claim's example come out (lemma
  \<open>all_day_stay_three_nights\<close>).
\<close>

theorem timed_stay_loses_last_night:
  "map (\<lambda>b. (b_type b, b_date b)) (calendarEvent_sync 0 noExtractors timedStay) =
     [(Hotel, ''2025-06-01''), (Hotel, ''2025-06-02'')] \<and>
   map (\<lambda>b. (b_type b, b_date b)) (calendarEvent_backfill 0 noExtractors timedStay) =
     [(Hotel, ''2025-06-01''), (Hotel, ''2025-06-02'')] \<and>
   map_option (fmtDate 0) (ev_start timedStay) = Some ''2025-06-01'' \<and>
   map_option (fmtDate 0) (ev_end timedStay) = Some ''2025-06-04''"
  by (simp add: calendarEvent_sync_def calendarEvent_backfill_def Let_def timedStay_def
      orElse_def stay_signals nights_timed fmtDate_examples strLess_examples
      del: dateRange.simps)

lemma all_day_stay_three_nights:
  "map (\<lambda>b. (b_type b, b_date b)) (calendarEvent_sync 0 noExtractors allDayStay) =
     [(Hotel, ''2025-06-01''), (Hotel, ''2025-06-02''), (Hotel, ''2025-06-03'')] \<and>
   map_option (fmtDate 0) (ev_start allDayStay) = Some ''2025-06-01'' \<and>
   map_option (fmtDate 0) (ev_end allDayStay) = Some ''2025-06-04''"
  by (simp add: calendarEvent_sync_def Let_def allDayStay_def
      orElse_def stay_signals nights_all_day fmtDate_examples
      del: dateRange.simps)

text \<open>In general: \<open>dateRange\<close> lists consecutive days from the day of its start, and the
  nights of a stay are the days from check-in to the day before check-out exactly when
  the check-out is not earlier in the day than the check-in (lemma \<open>nights_aligned\<close>);
  otherwise the last of these nights is missing (lemma \<open>nights_misaligned\<close>).\<close>

lemma localDay_add: "localDay tz (t + k * 86400000) = localDay tz t + k"
proof -
  have "(t + k * 86400000 + tz) = (t + tz) + k * 86400000" by simp
  then show ?thesis unfolding localDay_def by (simp only: div_mult_self1 div_mult_self2)
qed

lemma dateRange_steps:
  "dateRange tz d e =
     map (\<lambda>k. fmtDay (localDay tz d + int k)) [0..<nat ((e - d) div 86400000 + 1)]"
proof (induction tz d e rule: dateRange.induct)
  case (1 tz d e)
  show ?case
  proof (cases "d \<le> e")
    case False
    then have "(e - d) div 86400000 < 0" by (simp add: div_neg_pos_less0)
    with False show ?thesis by (subst dateRange.simps) simp
  next
    case True
    define n where "n = nat ((e - d) div 86400000)"
    have nn: "0 \<le> (e - d) div 86400000" using True by (simp add: pos_imp_zdiv_nonneg_iff)
    have a: "(e - (d + 86400000)) div 86400000 + 1 = (e - d) div 86400000"
    proof -
      have "e - (d + 86400000) = (e - d) + (- 1) * 86400000" by simp
      then have "(e - (d + 86400000)) div 86400000 = (e - d) div 86400000 + (- 1)"
        by (simp only: div_mult_self1 div_mult_self2)
      then show ?thesis by simp
    qed
    have l: "localDay tz (d + 86400000) = localDay tz d + 1"
      using localDay_add [of tz d 1] by simp
    have ih: "dateRange tz (d + 86400000) e =
        map (\<lambda>k. fmtDay (localDay tz d + 1 + int k)) [0..<n]"
      using 1 [OF True] by (simp only: a l n_def)
    have s: "nat ((e - d) div 86400000 + 1) = Suc n" using nn by (simp add: n_def)
    have "map (\<lambda>k. fmtDay (localDay tz d + int k)) [0..<Suc n] =
          fmtDay (localDay tz d) # map (\<lambda>k. fmtDay (localDay tz d + 1 + int k)) [0..<n]"
      by (simp add: upt_conv_Cons map_Suc_upt [symmetric] del: upt_Suc) (simp add: add.commute add.left_commute)
    then show ?thesis
      using True ih s by (subst dateRange.simps) (simp add: fmtDate_def del: upt_Suc dateRange.simps)
  qed
qed

lemma div_diff_aligned:
  fixes a b D :: int
  assumes "0 < D" and "a mod D \<le> b mod D"
  shows "(b - a) div D = b div D - a div D"
proof -
  define r where "r = b mod D - a mod D"
  have "b mod D < D" "0 \<le> a mod D" using assms(1) by simp_all
  then have r: "0 \<le> r" "r < D"
    unfolding r_def using assms(2) by linarith+
  have "b - a = r + (b div D - a div D) * D"
    unfolding r_def using div_mult_mod_eq [of b D] div_mult_mod_eq [of a D]
    by (simp add: algebra_simps)
  then have "(b - a) div D = r div D + (b div D - a div D)"
    using assms(1) by simp
  then show ?thesis using r by simp
qed

lemma div_diff_misaligned:
  fixes a b D :: int
  assumes "0 < D" and "b mod D < a mod D"
  shows "(b - a) div D = b div D - a div D - 1"
proof -
  define r where "r = b mod D - a mod D + D"
  have "a mod D < D" "0 \<le> b mod D" using assms(1) by simp_all
  then have r: "0 \<le> r" "r < D"
    unfolding r_def using assms(2) by linarith+
  have "b - a = r + (b div D - a div D - 1) * D"
    unfolding r_def using div_mult_mod_eq [of b D] div_mult_mod_eq [of a D]
    by (simp add: algebra_simps)
  then have "(b - a) div D = r div D + (b div D - a div D - 1)"
    using assms(1) by simp
  then show ?thesis using r by simp
qed

lemma nights_count:
  "nat ((checkOut - 86400000 - checkIn) div 86400000 + 1) =
   nat ((checkOut + tz - (checkIn + tz)) div 86400000)"
proof -
  have "checkOut - 86400000 - checkIn = (checkOut - checkIn) + (- 1) * 86400000" by simp
  then have "(checkOut - 86400000 - checkIn) div 86400000 = (checkOut - checkIn) div 86400000 + (- 1)"
    by (simp only: div_mult_self1 div_mult_self2)
  then show ?thesis by simp
qed

lemma nights_aligned:
  assumes "(checkIn + tz) mod 86400000 \<le> (checkOut + tz) mod 86400000"
  shows "dateRange tz checkIn (checkOut - 86400000) =
           map (\<lambda>k. fmtDay (localDay tz checkIn + int k))
             [0..<nat (localDay tz checkOut - localDay tz checkIn)]"
  unfolding dateRange_steps nights_count [of checkOut checkIn tz] localDay_def
  using div_diff_aligned [OF _ assms] by simp

lemma nights_misaligned:
  assumes "(checkOut + tz) mod 86400000 < (checkIn + tz) mod 86400000"
  shows "dateRange tz checkIn (checkOut - 86400000) =
           map (\<lambda>k. fmtDay (localDay tz checkIn + int k))
             [0..<nat (localDay tz checkOut - localDay tz checkIn - 1)]"
  unfolding dateRange_steps nights_count [of checkOut checkIn tz] localDay_def
  using div_diff_misaligned [OF _ assms] by simp

end
